theory Spec2Isabelle
  imports Main
begin

section \<open>Data model\<close>

text \<open>
  Dates are milliseconds since the epoch (the value of \<open>Date.getTime()\<close>), object
  identifiers are natural numbers, and the failure counter, which starts at 0 and is
  only incremented or reset, is a natural number. Strings are lists of 8-bit
  characters; the addresses that the login schema admits are ASCII.

  A reference that the source reads after \<open>populate\<close> is the option of the referenced
  document: \<open>None\<close> is the \<open>null\<close> that \<open>populate\<close> leaves for a document that has been
  deleted. (References to roles are an array of references, from which \<open>populate\<close>
  drops the deleted ones.)
\<close>

type_synonym date = int
type_synonym object_id = nat

subsection \<open>user-credentials.schema\<close>

record RefreshToken =
  token :: string
  expiresAt :: date
  createdAt :: date
  deviceInfo :: "string option"
  ipAddress :: "string option"

record PasswordReset =
  reset_token :: string
  reset_expiresAt :: date
  reset_createdAt :: date
  used :: bool

record UserCredentials =
  staffProfileId :: object_id
  email :: string
  password :: string
  isEmailVerified :: bool
  emailVerificationToken :: "string option"
  emailVerificationExpiry :: "date option"
  refreshTokens :: "RefreshToken list"
  passwordResetTokens :: "PasswordReset list"
  passwordChangedAt :: "date option"
  twoFactorEnabled :: bool
  twoFactorSecret :: "string option"
  lastPasswordChange :: "date option"
  failedLoginAttempts :: nat
  accountLockedUntil :: "date option"

subsection \<open>permission.schema, role.schema, staff-profile.schema\<close>

record Permission =
  permissionId :: string
  resource :: string
  actions :: "string list"
  perm_isActive :: bool

record RolePermission =
  rp_permissionId :: "Permission option"
  rp_allowedActions :: "string list"

record Role =
  roleId :: string
  roleName :: string
  level :: string
  permissions :: "RolePermission list"
  role_isActive :: bool
  isSystemRole :: bool

record StaffCustomPermission =
  cp_permissionId :: "Permission option"
  cp_allowedActions :: "string list"
  isRevoked :: bool

text \<open>The staff document. A path that a \<open>populate\<close> with a field selection does not
  load is absent: \<open>address\<close> is \<open>None\<close> then. The schema declares no path \<open>staffId\<close>.\<close>

record Address =
  street :: string
  city :: string
  adr_state :: string
  postalCode :: string
  country :: string

record Staff =
  staff_oid :: object_id
  firstName :: string
  lastName :: string
  staff_email :: string
  address :: "Address option"

text \<open>\<open>staffId\<close> is the stored reference, \<open>staffDoc\<close> the document that \<open>populate\<close>
  finds for it.\<close>

record StaffProfile =
  profile_oid :: object_id
  staffId :: object_id
  staffDoc :: "Staff option"
  assignedRoles :: "Role list"
  customPermissions :: "StaffCustomPermission list option"
  isActive :: bool
  lastLogin :: "date option"

subsection \<open>The persisted state\<close>

text \<open>
  A collection is the list of its documents; the position of a document stands for
  its \<open>_id\<close>. \<open>findOne\<close> returns the first document that satisfies the filter and
  \<open>save\<close> writes the document back at its position.
\<close>

record db =
  credentials :: "UserCredentials list"
  profiles :: "StaffProfile list"

text \<open>
  The virtuals of the staff schema, which \<open>toJSON\<close> evaluates (\<open>toJSON: {virtuals: true}\<close>).
  \<open>addressSummary\<close> reads \<open>this.address.street\<close>: it throws a TypeError, here \<open>None\<close>, when
  the address is absent. \<open>staffToJSON\<close> returns the document with its two virtuals.
\<close>

definition fullName :: "Staff \<Rightarrow> string" where
  "fullName s = firstName s @ '' '' @ lastName s"

definition addressSummary :: "Staff \<Rightarrow> string option" where
  "addressSummary s =
     (case address s of
        None \<Rightarrow> None
      | Some a \<Rightarrow> Some (street a @ '', '' @ city a @ '', '' @ adr_state a @ '', '' @ country a))"

definition staffToJSON :: "Staff \<Rightarrow> (Staff \<times> string \<times> string) option" where
  "staffToJSON s =
     (case addressSummary s of
        None \<Rightarrow> None
      | Some summary \<Rightarrow> Some (s, fullName s, summary))"

text \<open>\<open>populate("staffId", "firstName lastName email employment")\<close>: the address is not
  among the selected paths.\<close>

definition populateStaffForLogin :: "StaffProfile \<Rightarrow> Staff option" where
  "populateStaffForLogin p = map_option (\<lambda>s. s\<lparr>address := None\<rparr>) (staffDoc p)"

fun findOneIdx :: "('a \<Rightarrow> bool) \<Rightarrow> 'a list \<Rightarrow> nat option" where
  "findOneIdx P [] = None"
| "findOneIdx P (x # xs) = (if P x then Some 0 else map_option Suc (findOneIdx P xs))"

definition saveCredentials :: "db \<Rightarrow> nat \<Rightarrow> UserCredentials \<Rightarrow> db" where
  "saveCredentials d i c = d\<lparr>credentials := (credentials d)[i := c]\<rparr>"

definition saveProfile :: "db \<Rightarrow> nat \<Rightarrow> StaffProfile \<Rightarrow> db" where
  "saveProfile d j p = d\<lparr>profiles := (profiles d)[j := p]\<rparr>"

section \<open>Credential methods (user-credentials.schema)\<close>

definition isAccountLocked :: "UserCredentials \<Rightarrow> date \<Rightarrow> bool" where
  "isAccountLocked c now =
     (case accountLockedUntil c of None \<Rightarrow> False | Some t \<Rightarrow> t > now)"

definition incrementFailedAttempts :: "UserCredentials \<Rightarrow> date \<Rightarrow> UserCredentials" where
  "incrementFailedAttempts c now =
     (let c1 = c\<lparr>failedLoginAttempts := failedLoginAttempts c + 1\<rparr>
      in if failedLoginAttempts c1 \<ge> 5
         then c1\<lparr>accountLockedUntil := Some (now + 30 * 60 * 1000)\<rparr>
         else c1)"

definition resetFailedAttempts :: "UserCredentials \<Rightarrow> UserCredentials" where
  "resetFailedAttempts c = c\<lparr>failedLoginAttempts := 0, accountLockedUntil := None\<rparr>"

definition addRefreshToken ::
  "UserCredentials \<Rightarrow> string \<Rightarrow> date \<Rightarrow> string option \<Rightarrow> string option \<Rightarrow> date
     \<Rightarrow> UserCredentials" where
  "addRefreshToken c tok exp_at dev ip now =
     (let kept = filter (\<lambda>rt. expiresAt rt > now) (refreshTokens c);
          room = (if length kept \<ge> 5 then tl kept else kept)
      in c\<lparr>refreshTokens :=
             room @ [\<lparr>token = tok, expiresAt = exp_at, createdAt = now,
                      deviceInfo = dev, ipAddress = ip\<rparr>]\<rparr>)"

definition removeRefreshToken :: "UserCredentials \<Rightarrow> string \<Rightarrow> UserCredentials" where
  "removeRefreshToken c tok =
     c\<lparr>refreshTokens := filter (\<lambda>rt. token rt \<noteq> tok) (refreshTokens c)\<rparr>"

definition removeAllRefreshTokens :: "UserCredentials \<Rightarrow> UserCredentials" where
  "removeAllRefreshTokens c = c\<lparr>refreshTokens := []\<rparr>"

section \<open>External collaborators\<close>

text \<open>
  bcrypt, SHA-256 and the JSON-web-token library are not part of the repository; the
  model takes them as the fields of an environment. \<open>jwtCheckRefresh\<close> stands for the
  signature, issuer and audience check of \<open>jwt.verify\<close> under the refresh secret and
  returns the decoded claims; the expiry test of \<open>jwt.verify\<close> is written out in
  \<open>verifyRefreshToken\<close>. The clock is read once per request. Failures of the
  store, of bcrypt and of the signing of a token are outside the model; the TypeErrors
  that the handlers' own code raises, and their \<open>catch\<close> blocks answer, are in it.
\<close>

record TokenPayload =
  tp_userId :: object_id
  tp_email :: string
  tp_staffId :: "string option"
  tp_roles :: "string list"

record DecodedToken =
  userId :: object_id
  dt_email :: string
  dt_staffId :: "string option"
  dt_roles :: "string list"
  dt_exp :: date

record env =
  bcryptHash :: "string \<Rightarrow> string"
  bcryptCompare :: "string \<Rightarrow> string \<Rightarrow> bool"
  sha256Hex :: "string \<Rightarrow> string"
  jwtSignAccess :: "TokenPayload \<Rightarrow> date \<Rightarrow> string"
  jwtSignRefresh :: "TokenPayload \<Rightarrow> date \<Rightarrow> string"
  jwtCheckRefresh :: "string \<Rightarrow> DecodedToken option"

section \<open>password.utils and jwt.utils\<close>

definition hashPassword :: "env \<Rightarrow> string \<Rightarrow> string" where
  "hashPassword e pw = bcryptHash e pw"

definition comparePassword :: "env \<Rightarrow> string \<Rightarrow> string \<Rightarrow> bool" where
  "comparePassword e pw hashed = bcryptCompare e pw hashed"

definition hashResetToken :: "env \<Rightarrow> string \<Rightarrow> string" where
  "hashResetToken e tok = sha256Hex e tok"

definition isLowerChar :: "char \<Rightarrow> bool" where
  "isLowerChar ch = (97 \<le> (of_char ch :: nat) \<and> (of_char ch :: nat) \<le> 122)"

definition isUpperChar :: "char \<Rightarrow> bool" where
  "isUpperChar ch = (65 \<le> (of_char ch :: nat) \<and> (of_char ch :: nat) \<le> 90)"

definition isDigitChar :: "char \<Rightarrow> bool" where
  "isDigitChar ch = (48 \<le> (of_char ch :: nat) \<and> (of_char ch :: nat) \<le> 57)"

text \<open>
  The email path of the credential schema is declared \<open>lowercase: true, trim: true\<close>.
  Mongoose applies these setters to the value of a filter on the path as well, so
  \<open>findOne({ email })\<close> looks for the trimmed, lower-cased address. \<open>trim\<close> removes the
  ASCII white space (codes 9 to 13 and 32) at both ends.
\<close>

definition toLowerChar :: "char \<Rightarrow> char" where
  "toLowerChar ch = (if isUpperChar ch then char_of ((of_char ch :: nat) + 32) else ch)"

definition isSpaceChar :: "char \<Rightarrow> bool" where
  "isSpaceChar ch = ((of_char ch :: nat) \<in> set [9, 10, 11, 12, 13, 32])"

definition trim :: "string \<Rightarrow> string" where
  "trim s = rev (dropWhile isSpaceChar (rev (dropWhile isSpaceChar s)))"

definition castEmail :: "string \<Rightarrow> string" where
  "castEmail em = map toLowerChar (trim em)"

text \<open>The character class of the last test, by character code:
  \<^verbatim>\<open>! @ # $ % ^ & * ( ) , . ? " : { } | < >\<close>.\<close>

definition isSpecialChar :: "char \<Rightarrow> bool" where
  "isSpecialChar ch =
     ((of_char ch :: nat) \<in> set [33, 64, 35, 36, 37, 94, 38, 42, 40, 41, 44, 46, 63, 34,
                                  58, 123, 125, 124, 60, 62])"

definition validatePasswordStrength :: "string \<Rightarrow> bool \<times> string list" where
  "validatePasswordStrength pw =
     (let errs =
        (if length pw < 8 then [''Password must be at least 8 characters long''] else []) @
        (if \<not> list_ex isLowerChar pw
         then [''Password must contain at least one lowercase letter''] else []) @
        (if \<not> list_ex isUpperChar pw
         then [''Password must contain at least one uppercase letter''] else []) @
        (if \<not> list_ex isDigitChar pw
         then [''Password must contain at least one number''] else []) @
        (if \<not> list_ex isSpecialChar pw
         then [''Password must contain at least one special character''] else [])
      in (errs = [], errs))"

definition generateAccessToken :: "env \<Rightarrow> TokenPayload \<Rightarrow> date \<Rightarrow> string" where
  "generateAccessToken e pl now = jwtSignAccess e pl now"

definition generateRefreshToken :: "env \<Rightarrow> TokenPayload \<Rightarrow> date \<Rightarrow> string" where
  "generateRefreshToken e pl now = jwtSignRefresh e pl now"

definition generateTokens :: "env \<Rightarrow> TokenPayload \<Rightarrow> date \<Rightarrow> string \<times> string" where
  "generateTokens e pl now = (generateAccessToken e pl now, generateRefreshToken e pl now)"

text \<open>\<open>Inl\<close> carries the message of the error that the source throws.\<close>

definition verifyRefreshToken :: "env \<Rightarrow> string \<Rightarrow> date \<Rightarrow> string + DecodedToken" where
  "verifyRefreshToken e tok now =
     (case jwtCheckRefresh e tok of
        None \<Rightarrow> Inl ''Invalid refresh token''
      | Some d \<Rightarrow> if now \<ge> dt_exp d then Inl ''Refresh token has expired'' else Inr d)"

section \<open>Responses\<close>

type_synonym staff_json = "Staff \<times> string \<times> string"

datatype resp_data =
    LoginData object_id staff_json string "Role list" bool string string
  | AccessTokenData string

record response =
  status :: nat
  success :: bool
  message :: string
  errors :: "string list option"
  error :: "string option"
  resetToken :: "string option"
  required :: "(string \<times> string) option"
  data :: "resp_data option"

definition reply :: "nat \<Rightarrow> bool \<Rightarrow> string \<Rightarrow> response" where
  "reply st ok msg =
     \<lparr>status = st, success = ok, message = msg, errors = None, error = None,
      resetToken = None, required = None, data = None\<rparr>"

section \<open>AuthController\<close>

text \<open>
  Every handler takes the persisted state and returns the response with the state it
  leaves. A body field that may be missing is an option; the source's \<open>!refreshToken\<close>
  holds for a missing field and for the empty string. \<open>user\<close> is \<open>req.user\<close>, set by
  the authentication middleware.

  In \<open>login\<close>, \<open>profile.staffId._id\<close> throws when the staff document has been deleted,
  and \<open>res.json\<close> serialises the populated staff document with \<open>toJSON\<close>; either
  TypeError is caught and answered 500 "Login failed" with the message of the error
  (the messages are Node's, without the quotes around the property), after the
  writes that precede it. The token payload's \<open>staffId\<close> is read from a path that the
  staff schema does not have, and is undefined.
\<close>

definition login ::
  "env \<Rightarrow> db \<Rightarrow> string \<Rightarrow> string \<Rightarrow> string option \<Rightarrow> string option \<Rightarrow> date
     \<Rightarrow> response \<times> db" where
  "login e d em pw dev ip now =
     (case findOneIdx (\<lambda>c. email c = castEmail em) (credentials d) of
        None \<Rightarrow> (reply 401 False ''Invalid email or password'', d)
      | Some i \<Rightarrow>
          (let c = credentials d ! i in
           if isAccountLocked c now
           then (reply 403 False ''Account is locked due to multiple failed login attempts'', d)
           else if \<not> comparePassword e pw (password c)
           then (reply 401 False ''Invalid email or password'',
                 saveCredentials d i (incrementFailedAttempts c now))
           else
             (let c1 = resetFailedAttempts c;
                  d1 = saveCredentials d i c1
              in case findOneIdx (\<lambda>p. profile_oid p = staffProfileId c1) (profiles d1) of
                   None \<Rightarrow> (reply 403 False ''Account is inactive'', d1)
                 | Some j \<Rightarrow>
                     (let p = profiles d1 ! j in
                      if \<not> isActive p
                      then (reply 403 False ''Account is inactive'', d1)
                      else
                        (case populateStaffForLogin p of
                           None \<Rightarrow>
                             ((reply 500 False ''Login failed'')
                                \<lparr>error := Some ''Cannot read properties of null (reading _id)''\<rparr>,
                              d1)
                         | Some staff \<Rightarrow>
                             (let pl = \<lparr>tp_userId = staff_oid staff, tp_email = email c1,
                                        tp_staffId = None,
                                        tp_roles = map roleName (assignedRoles p)\<rparr>;
                                  toks = generateTokens e pl now;
                                  c2 = addRefreshToken c1 (snd toks)
                                         (now + 7 * 24 * 60 * 60 * 1000) dev ip now;
                                  d2 = saveCredentials d1 i c2;
                                  p1 = p\<lparr>lastLogin := Some now\<rparr>;
                                  d3 = saveProfile d2 j p1
                              in case staffToJSON staff of
                                   None \<Rightarrow>
                                     ((reply 500 False ''Login failed'')
                                        \<lparr>error := Some
                                           ''Cannot read properties of undefined (reading street)''\<rparr>,
                                      d3)
                                 | Some json \<Rightarrow>
                                     ((reply 200 True ''Login successful'')
                                        \<lparr>data := Some (LoginData (profile_oid p1) json (email c2)
                                                  (assignedRoles p1) (isActive p1)
                                                  (fst toks) (snd toks))\<rparr>,
                                      d3)))))))"

definition refreshToken :: "env \<Rightarrow> db \<Rightarrow> string option \<Rightarrow> date \<Rightarrow> response \<times> db" where
  "refreshToken e d body_token now =
     (case body_token of
        None \<Rightarrow> (reply 400 False ''Refresh token is required'', d)
      | Some tok \<Rightarrow>
          if tok = [] then (reply 400 False ''Refresh token is required'', d)
          else
            (case verifyRefreshToken e tok now of
               Inl msg \<Rightarrow> ((reply 401 False ''Token refresh failed'')\<lparr>error := Some msg\<rparr>, d)
             | Inr decoded \<Rightarrow>
                 (case findOneIdx (\<lambda>c. email c = castEmail (dt_email decoded)) (credentials d) of
                    None \<Rightarrow> (reply 401 False ''Invalid refresh token'', d)
                  | Some i \<Rightarrow>
                      (let c = credentials d ! i in
                       if \<not> list_ex (\<lambda>rt. token rt = tok \<and> expiresAt rt > now) (refreshTokens c)
                       then (reply 401 False ''Refresh token is invalid or expired'', d)
                       else
                         (case findOneIdx (\<lambda>p. profile_oid p = staffProfileId c) (profiles d) of
                            None \<Rightarrow> (reply 403 False ''Account is inactive'', d)
                          | Some j \<Rightarrow>
                              (let p = profiles d ! j in
                               if \<not> isActive p
                               then (reply 403 False ''Account is inactive'', d)
                               else
                                 (let pl = \<lparr>tp_userId = staffId p,
                                            tp_email = email c,
                                            tp_staffId = dt_staffId decoded,
                                            tp_roles = map roleName (assignedRoles p)\<rparr>
                                  in ((reply 200 True ''Token refreshed successfully'')
                                        \<lparr>data := Some (AccessTokenData
                                                  (generateAccessToken e pl now))\<rparr>,
                                      d))))))))"

definition logout :: "env \<Rightarrow> db \<Rightarrow> string option \<Rightarrow> date \<Rightarrow> response \<times> db" where
  "logout e d body_token now =
     (case body_token of
        None \<Rightarrow> (reply 400 False ''Refresh token is required'', d)
      | Some tok \<Rightarrow>
          if tok = [] then (reply 400 False ''Refresh token is required'', d)
          else
            (case verifyRefreshToken e tok now of
               Inl msg \<Rightarrow> (reply 200 True ''Logout successful'', d)
             | Inr decoded \<Rightarrow>
                 (case findOneIdx (\<lambda>c. email c = castEmail (dt_email decoded)) (credentials d) of
                    None \<Rightarrow> (reply 200 True ''Logout successful'', d)
                  | Some i \<Rightarrow>
                      (reply 200 True ''Logout successful'',
                       saveCredentials d i (removeRefreshToken (credentials d ! i) tok)))))"

definition logoutAll :: "db \<Rightarrow> DecodedToken option \<Rightarrow> response \<times> db" where
  "logoutAll d user =
     (case user of
        None \<Rightarrow> (reply 401 False ''Authentication required'', d)
      | Some u \<Rightarrow>
          (case findOneIdx (\<lambda>c. email c = castEmail (dt_email u)) (credentials d) of
             None \<Rightarrow> (reply 200 True ''Logged out from all devices'', d)
           | Some i \<Rightarrow>
               (reply 200 True ''Logged out from all devices'',
                saveCredentials d i (removeAllRefreshTokens (credentials d ! i)))))"

definition changePassword ::
  "env \<Rightarrow> db \<Rightarrow> DecodedToken option \<Rightarrow> string \<Rightarrow> string \<Rightarrow> date \<Rightarrow> response \<times> db" where
  "changePassword e d user currentPassword newPassword now =
     (case user of
        None \<Rightarrow> (reply 401 False ''Authentication required'', d)
      | Some u \<Rightarrow>
          (let passwordValidation = validatePasswordStrength newPassword in
           if \<not> fst passwordValidation
           then ((reply 400 False ''New password does not meet requirements'')
                   \<lparr>errors := Some (snd passwordValidation)\<rparr>, d)
           else
             (case findOneIdx (\<lambda>c. email c = castEmail (dt_email u)) (credentials d) of
                None \<Rightarrow> (reply 404 False ''User not found'', d)
              | Some i \<Rightarrow>
                  (let c = credentials d ! i in
                   if \<not> comparePassword e currentPassword (password c)
                   then (reply 401 False ''Current password is incorrect'', d)
                   else
                     (let c1 = c\<lparr>password := hashPassword e newPassword,
                                  passwordChangedAt := Some now,
                                  lastPasswordChange := Some now\<rparr>;
                          c2 = removeAllRefreshTokens c1
                      in (reply 200 True ''Password changed successfully. Please login again.'',
                          saveCredentials d i c2))))))"

text \<open>\<open>rnd\<close> is the hexadecimal rendering of the 32 random bytes drawn by
  \<open>generateResetToken\<close>.\<close>

definition generateResetToken :: "env \<Rightarrow> string \<Rightarrow> string \<times> string" where
  "generateResetToken e rnd = (rnd, sha256Hex e rnd)"

definition forgotPassword :: "env \<Rightarrow> db \<Rightarrow> string \<Rightarrow> string \<Rightarrow> date \<Rightarrow> response \<times> db" where
  "forgotPassword e d em rnd now =
     (case findOneIdx (\<lambda>c. email c = castEmail em) (credentials d) of
        None \<Rightarrow> (reply 200 True ''If the email exists, a reset link has been sent'', d)
      | Some i \<Rightarrow>
          (let c = credentials d ! i;
               gen = generateResetToken e rnd;
               c1 = c\<lparr>passwordResetTokens :=
                        passwordResetTokens c @
                          [\<lparr>reset_token = snd gen, reset_expiresAt = now + 60 * 60 * 1000,
                            reset_createdAt = now, used = False\<rparr>]\<rparr>
           in ((reply 200 True ''Password reset link has been sent to your email'')
                 \<lparr>resetToken := Some (fst gen)\<rparr>,
               saveCredentials d i c1)))"

text \<open>
  The filter of \<open>resetPassword\<close> names three dotted paths into the array
  \<open>passwordResetTokens\<close> without \<open>$elemMatch\<close>. MongoDB matches each such condition
  against the array on its own: a document satisfies the filter when some element has
  the digest, some element has not expired and some element is unused.
\<close>

definition resetTokenFilter :: "string \<Rightarrow> date \<Rightarrow> UserCredentials \<Rightarrow> bool" where
  "resetTokenFilter hashedToken now c =
     (list_ex (\<lambda>rt. reset_token rt = hashedToken) (passwordResetTokens c) \<and>
      list_ex (\<lambda>rt. reset_expiresAt rt > now) (passwordResetTokens c) \<and>
      list_ex (\<lambda>rt. used rt = False) (passwordResetTokens c))"

definition resetPassword :: "env \<Rightarrow> db \<Rightarrow> string \<Rightarrow> string \<Rightarrow> date \<Rightarrow> response \<times> db" where
  "resetPassword e d tok newPassword now =
     (let passwordValidation = validatePasswordStrength newPassword in
      if \<not> fst passwordValidation
      then ((reply 400 False ''Password does not meet requirements'')
              \<lparr>errors := Some (snd passwordValidation)\<rparr>, d)
      else
        (let hashedToken = hashResetToken e tok in
         case findOneIdx (resetTokenFilter hashedToken now) (credentials d) of
           None \<Rightarrow> (reply 400 False ''Invalid or expired reset token'', d)
         | Some i \<Rightarrow>
             (let c = credentials d ! i;
                  c1 = c\<lparr>password := hashPassword e newPassword,
                          passwordChangedAt := Some now,
                          lastPasswordChange := Some now\<rparr>;
                  c2 = (case findOneIdx (\<lambda>rt. reset_token rt = hashedToken)
                               (passwordResetTokens c1) of
                          None \<Rightarrow> c1
                        | Some k \<Rightarrow>
                            c1\<lparr>passwordResetTokens :=
                                 (passwordResetTokens c1)
                                   [k := (passwordResetTokens c1 ! k)\<lparr>used := True\<rparr>]\<rparr>);
                  c3 = removeAllRefreshTokens c2
              in (reply 200 True
                    ''Password reset successful. Please login with your new password.'',
                  saveCredentials d i c3))))"

definition verifyEmail :: "db \<Rightarrow> string \<Rightarrow> date \<Rightarrow> response \<times> db" where
  "verifyEmail d tok now =
     (case findOneIdx
             (\<lambda>c. emailVerificationToken c = Some tok \<and>
                  (case emailVerificationExpiry c of None \<Rightarrow> False | Some t \<Rightarrow> t > now))
             (credentials d) of
        None \<Rightarrow> (reply 400 False ''Invalid or expired verification token'', d)
      | Some i \<Rightarrow>
          (reply 200 True ''Email verified successfully'',
           saveCredentials d i
             ((credentials d ! i)\<lparr>isEmailVerified := True, emailVerificationToken := None,
                                  emailVerificationExpiry := None\<rparr>)))"

subsection \<open>The controller as a transition system\<close>

datatype request =
    Login string string "string option" "string option"
  | RefreshTokenReq "string option"
  | Logout "string option"
  | LogoutAll "DecodedToken option"
  | ChangePassword "DecodedToken option" string string
  | ForgotPassword string string
  | ResetPassword string string
  | VerifyEmail string

fun handle :: "env \<Rightarrow> db \<Rightarrow> request \<Rightarrow> date \<Rightarrow> response \<times> db" where
  "handle e d (Login em pw dev ip) now = login e d em pw dev ip now"
| "handle e d (RefreshTokenReq t) now = refreshToken e d t now"
| "handle e d (Logout t) now = logout e d t now"
| "handle e d (LogoutAll u) now = logoutAll d u"
| "handle e d (ChangePassword u cur new) now = changePassword e d u cur new now"
| "handle e d (ForgotPassword em rnd) now = forgotPassword e d em rnd now"
| "handle e d (ResetPassword t new) now = resetPassword e d t new now"
| "handle e d (VerifyEmail t) now = verifyEmail d t now"

text \<open>A sequence of requests, each with the time it is served at; the responses come
  back in the order of the requests.\<close>

fun serve :: "env \<Rightarrow> db \<Rightarrow> (request \<times> date) list \<Rightarrow> response list \<times> db" where
  "serve e d [] = ([], d)"
| "serve e d ((rq, now) # rest) =
     (let step = handle e d rq now;
          more = serve e (snd step) rest
      in (fst step # fst more, snd more))"

subsection \<open>The refresh-token ring as a transition system\<close>

datatype ring_op =
    AddRefreshToken string date "string option" "string option" date
  | RemoveRefreshToken string
  | RemoveAllRefreshTokens

fun ring_step :: "UserCredentials \<Rightarrow> ring_op \<Rightarrow> UserCredentials" where
  "ring_step c (AddRefreshToken tok exp_at dev ip now) = addRefreshToken c tok exp_at dev ip now"
| "ring_step c (RemoveRefreshToken tok) = removeRefreshToken c tok"
| "ring_step c RemoveAllRefreshTokens = removeAllRefreshTokens c"

definition ring_run :: "UserCredentials \<Rightarrow> ring_op list \<Rightarrow> UserCredentials" where
  "ring_run c ops = foldl ring_step c ops"

section \<open>auth.middleware: checkPermission\<close>

text \<open>
  The loops read \<open>permission.resource\<close> on the populated reference without a test for
  \<open>null\<close>: an entry whose permission has been deleted throws a TypeError when the loop
  reaches it. The result \<open>None\<close> of the functions below is that TypeError; the \<open>catch\<close>
  of \<open>checkPermission\<close> answers it 500 "Permission check failed".

  The two nested loops over the roles and their permission entries are each left by
  \<open>break\<close> at the first entry that grants.
\<close>

fun scanRolePermissions :: "RolePermission list \<Rightarrow> string \<Rightarrow> string \<Rightarrow> bool option" where
  "scanRolePermissions [] res act = Some False"
| "scanRolePermissions (rp # rps) res act =
     (case rp_permissionId rp of
        None \<Rightarrow> None
      | Some permission \<Rightarrow>
          if resource permission = res \<and> act \<in> set (rp_allowedActions rp) \<and>
             perm_isActive permission
          then Some True
          else scanRolePermissions rps res act)"

fun scanRoles :: "Role list \<Rightarrow> string \<Rightarrow> string \<Rightarrow> bool option" where
  "scanRoles [] res act = Some False"
| "scanRoles (r # rs) res act =
     (case scanRolePermissions (permissions r) res act of
        None \<Rightarrow> None
      | Some granted \<Rightarrow> if granted then Some True else scanRoles rs res act)"

text \<open>The loop over the custom permissions; \<open>has\<close> is the value of \<open>hasPermission\<close> on
  entry.\<close>

fun scanCustomPermissions ::
  "StaffCustomPermission list \<Rightarrow> string \<Rightarrow> string \<Rightarrow> bool \<Rightarrow> bool option" where
  "scanCustomPermissions [] res act has = Some has"
| "scanCustomPermissions (cp # cps) res act has =
     (case cp_permissionId cp of
        None \<Rightarrow> None
      | Some permission \<Rightarrow>
          if resource permission = res
          then (if isRevoked cp then Some False
                else if act \<in> set (cp_allowedActions cp) then Some True
                else scanCustomPermissions cps res act has)
          else scanCustomPermissions cps res act has)"

definition roleGrant :: "StaffProfile \<Rightarrow> string \<Rightarrow> string \<Rightarrow> bool option" where
  "roleGrant p res act = scanRoles (assignedRoles p) res act"

definition hasPermission :: "StaffProfile \<Rightarrow> string \<Rightarrow> string \<Rightarrow> bool option" where
  "hasPermission p res act =
     (case roleGrant p res act of
        None \<Rightarrow> None
      | Some has \<Rightarrow>
          (case customPermissions p of
             None \<Rightarrow> Some has
           | Some cps \<Rightarrow> scanCustomPermissions cps res act has))"

datatype mw_result = Next | Respond response

definition checkPermission ::
  "StaffProfile list \<Rightarrow> string \<Rightarrow> string \<Rightarrow> StaffProfile option \<Rightarrow> mw_result" where
  "checkPermission ps res act userProfile =
     (case userProfile of
        None \<Rightarrow> Respond (reply 401 False ''Authentication required'')
      | Some up \<Rightarrow>
          (case findOneIdx (\<lambda>p. profile_oid p = profile_oid up) ps of
             None \<Rightarrow> Respond (reply 403 False ''User profile not found'')
           | Some j \<Rightarrow>
               (case hasPermission (ps ! j) res act of
                  None \<Rightarrow>
                    Respond ((reply 500 False ''Permission check failed'')
                               \<lparr>error := Some
                                  ''Cannot read properties of null (reading resource)''\<rparr>)
                | Some granted \<Rightarrow>
                    if \<not> granted
                    then Respond ((reply 403 False
                                     (''You don't have permission to '' @ act @ '' '' @ res))
                                    \<lparr>required := Some (res, act)\<rparr>)
                    else Next)))"

section \<open>The specification's reading of the role grant\<close>

text \<open>
  The specification's words for step 1 of the permission resolver: some assigned,
  active role has a permission entry whose resource equals the query resource, whose
  allowed actions contain the query action and whose permission record is active.
\<close>

definition entryGrants :: "RolePermission \<Rightarrow> string \<Rightarrow> string \<Rightarrow> bool" where
  "entryGrants rp res act =
     (case rp_permissionId rp of
        None \<Rightarrow> False
      | Some permission \<Rightarrow>
          resource permission = res \<and> act \<in> set (rp_allowedActions rp) \<and>
          perm_isActive permission)"

definition spec_roleGrant :: "StaffProfile \<Rightarrow> string \<Rightarrow> string \<Rightarrow> bool" where
  "spec_roleGrant p res act =
     list_ex (\<lambda>r. role_isActive r \<and> list_ex (\<lambda>rp. entryGrants rp res act) (permissions r))
       (assignedRoles p)"

section \<open>The scan of the custom permissions, entry by entry\<close>




section \<open>Example states\<close>

text \<open>A transparent environment: hashing prefixes the input, a refresh token carries
  the email it was signed for and expires at time \<open>10^9\<close>.\<close>

definition plainEnv :: env where
  "plainEnv =
     \<lparr>bcryptHash = (\<lambda>pw. ''hash:'' @ pw),
      bcryptCompare = (\<lambda>pw h. h = ''hash:'' @ pw),
      sha256Hex = (\<lambda>t. ''sha:'' @ t),
      jwtSignAccess = (\<lambda>pl now. ''access:'' @ tp_email pl),
      jwtSignRefresh = (\<lambda>pl now. ''refresh:'' @ tp_email pl),
      jwtCheckRefresh =
        (\<lambda>t. if take 8 t = ''refresh:''
             then Some \<lparr>userId = 1, dt_email = drop 8 t, dt_staffId = None, dt_roles = [],
                        dt_exp = 1000000000\<rparr>
             else None)\<rparr>"

definition alice :: UserCredentials where
  "alice =
     \<lparr>staffProfileId = 1, email = ''a@x.com'', password = ''hash:Secret1!'',
      isEmailVerified = True, emailVerificationToken = None,
      emailVerificationExpiry = None, refreshTokens = [], passwordResetTokens = [],
      passwordChangedAt = None, twoFactorEnabled = False, twoFactorSecret = None,
      lastPasswordChange = None, failedLoginAttempts = 4, accountLockedUntil = None\<rparr>"

definition staffPermission :: Permission where
  "staffPermission =
     \<lparr>permissionId = ''PERM_STAFF'', resource = ''staff'',
      actions = [''create'', ''read'', ''update'', ''delete''], perm_isActive = True\<rparr>"


definition hrRole :: Role where
  "hrRole =
     \<lparr>roleId = ''HR'', roleName = ''HR Manager'', level = ''middle-management'',
      permissions =
        [\<lparr>rp_permissionId = Some staffPermission, rp_allowedActions = [''read'']\<rparr>],
      role_isActive = True, isSystemRole = False\<rparr>"

definition aliceStaff :: Staff where
  "aliceStaff =
     \<lparr>staff_oid = 7, firstName = ''Alice'', lastName = ''Ames'', staff_email = ''a@x.com'',
      address = Some \<lparr>street = ''1 Main St'', city = ''Pune'', adr_state = ''MH'',
                       postalCode = ''411001'', country = ''India''\<rparr>\<rparr>"

definition aliceProfile :: StaffProfile where
  "aliceProfile =
     \<lparr>profile_oid = 1, staffId = 7, staffDoc = Some aliceStaff,
      assignedRoles = [hrRole], customPermissions = Some [], isActive = True,
      lastLogin = None\<rparr>"

definition aliceDb :: db where
  "aliceDb = \<lparr>credentials = [alice], profiles = [aliceProfile]\<rparr>"

text \<open>Alice after a fifth failure at time 1000: locked until 1801000.\<close>

definition lockedDb :: db where
  "lockedDb =
     \<lparr>credentials = [alice\<lparr>failedLoginAttempts := 5, accountLockedUntil := Some 1801000\<rparr>],
      profiles = [aliceProfile]\<rparr>"


definition session :: "string \<Rightarrow> date \<Rightarrow> RefreshToken" where
  "session tok made =
     \<lparr>token = tok, expiresAt = made + 7 * 24 * 60 * 60 * 1000, createdAt = made,
      deviceInfo = None, ipAddress = None\<rparr>"

text \<open>Alice signed in on five devices.\<close>

definition fullRing :: UserCredentials where
  "fullRing =
     alice\<lparr>refreshTokens :=
             [session ''t1'' 10, session ''t2'' 20, session ''t3'' 30, session ''t4'' 40,
              session ''t5'' 50]\<rparr>"

text \<open>Alice signed in once, with one pending password-reset record for the raw token
  \<open>tokenA\<close>.\<close>

definition signedInDb :: db where
  "signedInDb =
     \<lparr>credentials =
        [alice\<lparr>refreshTokens := [session ''refresh:a@x.com'' 10],
               passwordResetTokens :=
                 [\<lparr>reset_token = ''sha:tokenA'', reset_expiresAt = 3601000,
                   reset_createdAt = 1000, used = False\<rparr>]\<rparr>],
      profiles = [aliceProfile]\<rparr>"



definition retiredProfile :: StaffProfile where
  "retiredProfile = aliceProfile\<lparr>assignedRoles := [hrRole\<lparr>role_isActive := False\<rparr>]\<rparr>"



text \<open>Two reset requests for Alice, then the first raw token presented twice.\<close>

definition reuseScenario :: "(request \<times> date) list" where
  "reuseScenario =
     [(ForgotPassword ''a@x.com'' ''tokenA'', 1000),
      (ForgotPassword ''a@x.com'' ''tokenB'', 2000),
      (ResetPassword ''tokenA'' ''Newpass1!'', 3000),
      (ResetPassword ''tokenA'' ''Another2?'', 4000)]"

section \<open>Lookup and persistence\<close>

lemma findOneIdx_Some:
  "findOneIdx P xs = Some i \<Longrightarrow> i < length xs \<and> P (xs ! i)"
  by (induction xs arbitrary: i) (auto split: if_splits)

lemma findOneIdx_None: "(findOneIdx P xs = None) = (\<not> list_ex P xs)"
  by (induction xs) auto

lemma findOneIdx_map_cong:
  "map P xs = map P ys \<Longrightarrow> findOneIdx P xs = findOneIdx P ys"
proof (induction xs arbitrary: ys)
  case Nil
  then show ?case by simp
next
  case (Cons x xs)
  then show ?case by (cases ys) auto
qed

lemma credentials_saveCredentials:
  "credentials (saveCredentials d i c) = (credentials d)[i := c]"
  by (simp add: saveCredentials_def)


lemma credentials_saveProfile: "credentials (saveProfile d j p) = credentials d"
  by (simp add: saveProfile_def)

text \<open>The filter's cast of three addresses.\<close>

lemma cast_lower: "castEmail ''a@x.com'' = ''a@x.com''"
  by code_simp

lemma cast_upper: "castEmail ''A@X.COM'' = ''a@x.com''"
  by code_simp

lemma cast_nobody: "castEmail ''nobody@x.com'' = ''nobody@x.com''"
  by code_simp

section \<open>Permission resolver\<close>

text \<open>What the two loops compute when they do not throw: some assigned role, active or
  not, has an entry that grants.\<close>

lemma scanRolePermissions_Some:
  "scanRolePermissions rps res act = Some b \<Longrightarrow>
     b = list_ex (\<lambda>rp. entryGrants rp res act) rps"
  by (induction rps arbitrary: b)
     (auto simp: entryGrants_def split: option.splits if_splits)

lemma scanRoles_Some:
  "scanRoles rs res act = Some b \<Longrightarrow>
     b = list_ex (\<lambda>r. list_ex (\<lambda>rp. entryGrants rp res act) (permissions r)) rs"
  by (induction rs arbitrary: b)
     (auto dest: scanRolePermissions_Some split: option.splits if_splits)

lemma roleGrant_Some:
  "roleGrant p res act = Some b \<Longrightarrow>
     b = list_ex (\<lambda>r. list_ex (\<lambda>rp. entryGrants rp res act) (permissions r)) (assignedRoles p)"
  by (simp add: roleGrant_def scanRoles_Some)

lemma roleGrant_active_roles:
  "roleGrant p res act = Some b \<Longrightarrow> list_all role_isActive (assignedRoles p) \<Longrightarrow>
     b = spec_roleGrant p res act"
  by (auto simp: spec_roleGrant_def list_ex_iff list_all_iff dest!: roleGrant_Some)

text \<open>
  Claim C1. The role grant is true if and only if some assigned role is active and has
  a permission entry for the query resource whose allowed actions contain the query
  action and whose permission record is active; an inactive assigned role never
  contributes a grant. The loops of \<open>checkPermission\<close> test the permission's
  \<open>isActive\<close> and never the role's: for the profile whose only role has been
  deactivated the role grant holds, the specification's role grant does not, and the
  request passes the gate.
\<close>

theorem inactive_role_still_grants:
  "roleGrant retiredProfile ''staff'' ''read'' = Some True \<and>
   \<not> spec_roleGrant retiredProfile ''staff'' ''read'' \<and>
   checkPermission [retiredProfile] ''staff'' ''read'' (Some retiredProfile) = Next"
  by (simp add: roleGrant_def spec_roleGrant_def checkPermission_def hasPermission_def
        retiredProfile_def aliceProfile_def hrRole_def staffPermission_def entryGrants_def)



text \<open>The answer of the gate for a profile that is found.\<close>

lemma checkPermission_found:
  "findOneIdx (\<lambda>p. profile_oid p = profile_oid up) ps = Some j \<Longrightarrow>
     checkPermission ps res act (Some up) =
       (case hasPermission (ps ! j) res act of
          None \<Rightarrow>
            Respond ((reply 500 False ''Permission check failed'')
                       \<lparr>error := Some ''Cannot read properties of null (reading resource)''\<rparr>)
        | Some granted \<Rightarrow>
            if granted then Next
            else Respond ((reply 403 False
                             (''You don't have permission to '' @ act @ '' '' @ res))
                            \<lparr>required := Some (res, act)\<rparr>))"
  by (simp add: checkPermission_def split: option.splits)




section \<open>Lockout\<close>

lemma failedLoginAttempts_increment:
  "failedLoginAttempts (incrementFailedAttempts c now) = Suc (failedLoginAttempts c)"
  by (simp add: incrementFailedAttempts_def Let_def)




lemma login_wrong_password:
  assumes "findOneIdx (\<lambda>c. email c = castEmail em) (credentials d) = Some i"
    and "\<not> isAccountLocked (credentials d ! i) now"
    and "\<not> comparePassword e pw (password (credentials d ! i))"
  shows "login e d em pw dev ip now =
           (reply 401 False ''Invalid email or password'',
            saveCredentials d i (incrementFailedAttempts (credentials d ! i) now))"
  using assms by (simp add: login_def)



text \<open>On the path that the source means to answer 200, \<open>res.json\<close> throws: the staff
  document is populated without its address, and its virtual \<open>addressSummary\<close> reads
  the address. No login is answered 200.\<close>

lemma staffToJSON_populated:
  "populateStaffForLogin p = Some staff \<Longrightarrow> staffToJSON staff = None"
  by (auto simp: populateStaffForLogin_def staffToJSON_def addressSummary_def)

lemma login_never_200: "status (fst (login e d em pw dev ip now)) \<noteq> 200"
  by (auto simp: login_def Let_def reply_def staffToJSON_populated split: option.splits)

text \<open>
  Claim C3. For a credential that is not locked, a login attempt with a password that
  does not match is answered 401 and increments \<open>failedLoginAttempts\<close> by exactly 1.
  When the resulting count has reached 5, \<open>accountLockedUntil\<close> is the time of the
  attempt plus 30 minutes and the credential is locked; when the resulting count is
  below 5, \<open>accountLockedUntil\<close> is left as it was (unset stays unset) and the
  credential stays unlocked. The credential is the one that the lookup of the
  request's address finds: the address is trimmed and lower-cased, as the schema has
  it.
\<close>

theorem failed_login_counts_and_locks:
  assumes "findOneIdx (\<lambda>c. email c = castEmail em) (credentials d) = Some i"
    and "\<not> isAccountLocked (credentials d ! i) now"
    and "\<not> comparePassword e pw (password (credentials d ! i))"
    and "login e d em pw dev ip now = (r, d')"
  shows "status r = 401 \<and>
         failedLoginAttempts (credentials d' ! i) = failedLoginAttempts (credentials d ! i) + 1 \<and>
         (failedLoginAttempts (credentials d' ! i) \<ge> 5 \<longrightarrow>
            accountLockedUntil (credentials d' ! i) = Some (now + 30 * 60 * 1000) \<and>
            isAccountLocked (credentials d' ! i) now) \<and>
         (failedLoginAttempts (credentials d' ! i) < 5 \<longrightarrow>
            accountLockedUntil (credentials d' ! i) = accountLockedUntil (credentials d ! i) \<and>
            \<not> isAccountLocked (credentials d' ! i) now)"
proof -
  have i: "i < length (credentials d)"
    using assms(1) findOneIdx_Some by blast
  have r: "r = reply 401 False ''Invalid email or password''"
    and d': "d' = saveCredentials d i (incrementFailedAttempts (credentials d ! i) now)"
    using login_wrong_password[OF assms(1-3), of dev ip] assms(4) by simp_all
  have c': "credentials d' ! i = incrementFailedAttempts (credentials d ! i) now"
    using i by (simp add: d' credentials_saveCredentials)
  show ?thesis
    using assms(2)
    by (simp add: r c' reply_def incrementFailedAttempts_def isAccountLocked_def Let_def)
qed

text \<open>Alice has failed four times and is not locked; the fifth mismatch, at time 1000
  and with her address typed in capitals, locks her until 1801000.\<close>

theorem failed_login_counts_and_locks_witness:
  "findOneIdx (\<lambda>c. email c = castEmail ''A@X.COM'') (credentials aliceDb) = Some 0 \<and>
   accountLockedUntil (credentials aliceDb ! 0) = None \<and>
   failedLoginAttempts (credentials aliceDb ! 0) = 4 \<and>
   status (fst (login plainEnv aliceDb ''A@X.COM'' ''wrong'' None None 1000)) = 401 \<and>
   failedLoginAttempts
     (credentials (snd (login plainEnv aliceDb ''A@X.COM'' ''wrong'' None None 1000)) ! 0) = 5 \<and>
   accountLockedUntil
     (credentials (snd (login plainEnv aliceDb ''A@X.COM'' ''wrong'' None None 1000)) ! 0) =
     Some 1801000"
proof -
  let ?out = "login plainEnv aliceDb ''A@X.COM'' ''wrong'' None None 1000"
  have f: "findOneIdx (\<lambda>c. email c = castEmail ''A@X.COM'') (credentials aliceDb) = Some 0"
    by (simp add: cast_upper aliceDb_def alice_def)
  have u: "\<not> isAccountLocked (credentials aliceDb ! 0) 1000"
    by (simp add: aliceDb_def alice_def isAccountLocked_def)
  have w: "\<not> comparePassword plainEnv ''wrong'' (password (credentials aliceDb ! 0))"
    by (simp add: aliceDb_def alice_def comparePassword_def plainEnv_def)
  have o: "?out = (fst ?out, snd ?out)"
    by simp
  have s: "accountLockedUntil (credentials aliceDb ! 0) = None \<and>
           failedLoginAttempts (credentials aliceDb ! 0) = 4"
    by (simp add: aliceDb_def alice_def)
  from failed_login_counts_and_locks[OF f u w o] f s show ?thesis
    by simp
qed




section \<open>Refresh-token ring\<close>

lemma length_ring_add:
  assumes "length (refreshTokens c) \<le> 5"
  shows "length (refreshTokens (addRefreshToken c tok ex dev ip now)) \<le> 5"
proof -
  define kept where "kept = filter (\<lambda>rt. expiresAt rt > now) (refreshTokens c)"
  have "length kept \<le> 5"
    unfolding kept_def using assms length_filter_le le_trans by blast
  moreover have "refreshTokens (addRefreshToken c tok ex dev ip now) =
      (if length kept \<ge> 5 then tl kept else kept) @
        [\<lparr>token = tok, expiresAt = ex, createdAt = now, deviceInfo = dev, ipAddress = ip\<rparr>]"
    by (simp add: addRefreshToken_def Let_def kept_def)
  ultimately show ?thesis
    by auto
qed

lemma length_ring_remove:
  assumes "length (refreshTokens c) \<le> 5"
  shows "length (refreshTokens (removeRefreshToken c tok)) \<le> 5"
proof -
  have "length (filter (\<lambda>rt. token rt \<noteq> tok) (refreshTokens c)) \<le> 5"
    using assms length_filter_le le_trans by blast
  then show ?thesis
    by (simp add: removeRefreshToken_def)
qed

lemma length_ring_step:
  "length (refreshTokens c) \<le> 5 \<Longrightarrow> length (refreshTokens (ring_step c x)) \<le> 5"
  by (cases x) (simp_all add: length_ring_add length_ring_remove removeAllRefreshTokens_def)

lemma length_ring_run:
  "length (refreshTokens c) \<le> 5 \<Longrightarrow> length (refreshTokens (ring_run c ops)) \<le> 5"
  unfolding ring_run_def
proof (induction ops arbitrary: c)
  case Nil
  then show ?case by simp
next
  case (Cons x ops)
  from Cons.prems have "length (refreshTokens (ring_step c x)) \<le> 5"
    by (rule length_ring_step)
  then show ?case
    using Cons.IH by simp
qed

text \<open>The stored order is the creation order: when the records are stored by
  non-decreasing \<open>createdAt\<close>, the head of the unexpired records is an oldest one, and
  adding at a time that is not before any stored \<open>createdAt\<close> keeps the order.\<close>

lemma ring_head_is_oldest:
  assumes "sorted (map createdAt (refreshTokens c))"
    and "rt \<in> set (filter (\<lambda>rt. expiresAt rt > now) (refreshTokens c))"
  shows "createdAt (hd (filter (\<lambda>rt. expiresAt rt > now) (refreshTokens c))) \<le> createdAt rt"
proof -
  let ?kept = "filter (\<lambda>rt. expiresAt rt > now) (refreshTokens c)"
  have "sorted (map createdAt ?kept)"
    using assms(1) by (simp add: sorted_filter)
  moreover from assms(2) obtain x xs where k: "?kept = x # xs"
    by (cases ?kept) auto
  ultimately show ?thesis
    using assms(2) by (auto simp: k)
qed

lemma ring_add_keeps_creation_order:
  assumes "sorted (map createdAt (refreshTokens c))"
    and "list_all (\<lambda>rt. createdAt rt \<le> now) (refreshTokens c)"
  shows "sorted (map createdAt (refreshTokens (addRefreshToken c tok ex dev ip now)))"
proof -
  define kept where "kept = filter (\<lambda>rt. expiresAt rt > now) (refreshTokens c)"
  define room where "room = (if length kept \<ge> 5 then tl kept else kept)"
  have "sorted (map createdAt kept)"
    unfolding kept_def using assms(1) by (simp add: sorted_filter)
  then have s: "sorted (map createdAt room)"
    unfolding room_def by (simp add: map_tl sorted_tl)
  have "set (tl kept) \<subseteq> set kept"
    by (cases kept) auto
  moreover have "set kept \<subseteq> set (refreshTokens c)"
    unfolding kept_def by auto
  ultimately have "set room \<subseteq> set (refreshTokens c)"
    unfolding room_def by auto
  with assms(2) have b: "\<forall>rt\<in>set room. createdAt rt \<le> now"
    by (auto simp: list_all_iff)
  have "refreshTokens (addRefreshToken c tok ex dev ip now) =
      room @ [\<lparr>token = tok, expiresAt = ex, createdAt = now, deviceInfo = dev, ipAddress = ip\<rparr>]"
    by (simp add: addRefreshToken_def Let_def kept_def room_def)
  with s b show ?thesis
    by (simp add: sorted_append)
qed

text \<open>
  Claim C5. For a credential that stores at most 5 refresh-token records,
  \<open>addRefreshToken\<close> drops every record whose \<open>expiresAt\<close> has passed, then, if exactly
  5 records remain, drops the first of them only (the oldest in stored order), then
  appends the new record; and after any sequence of \<open>addRefreshToken\<close>,
  \<open>removeRefreshToken\<close> and \<open>removeAllRefreshTokens\<close> the credential stores at most 5
  records.
\<close>

theorem refresh_ring_add_and_bound:
  assumes "length (refreshTokens c) \<le> 5"
  shows "refreshTokens (addRefreshToken c tok ex dev ip now) =
           (let kept = filter (\<lambda>rt. \<not> expiresAt rt \<le> now) (refreshTokens c)
            in (if length kept = 5 then tl kept else kept) @
               [\<lparr>token = tok, expiresAt = ex, createdAt = now, deviceInfo = dev,
                 ipAddress = ip\<rparr>]) \<and>
         (\<forall>ops. length (refreshTokens (ring_run c ops)) \<le> 5)"
proof
  define kept where "kept = filter (\<lambda>rt. expiresAt rt > now) (refreshTokens c)"
  have eq: "filter (\<lambda>rt. \<not> expiresAt rt \<le> now) (refreshTokens c) = kept"
    by (simp add: kept_def not_le)
  have "length kept \<le> 5"
    unfolding kept_def using assms length_filter_le le_trans by blast
  then have "(5 \<le> length kept) = (length kept = 5)"
    by auto
  then have "refreshTokens (addRefreshToken c tok ex dev ip now) =
      (if length kept = 5 then tl kept else kept) @
        [\<lparr>token = tok, expiresAt = ex, createdAt = now, deviceInfo = dev, ipAddress = ip\<rparr>]"
    by (simp add: addRefreshToken_def Let_def kept_def)
  then show "refreshTokens (addRefreshToken c tok ex dev ip now) =
           (let kept = filter (\<lambda>rt. \<not> expiresAt rt \<le> now) (refreshTokens c)
            in (if length kept = 5 then tl kept else kept) @
               [\<lparr>token = tok, expiresAt = ex, createdAt = now, deviceInfo = dev,
                 ipAddress = ip\<rparr>])"
    by (simp add: eq Let_def)
  show "\<forall>ops. length (refreshTokens (ring_run c ops)) \<le> 5"
    using assms by (simp add: length_ring_run)
qed

text \<open>Five unexpired sessions and a sixth sign-in at time 60: the first session goes,
  the other four stay in order, the new one is last; a later sign-out and sign-in keep
  the ring within 5.\<close>

theorem refresh_ring_add_and_bound_witness:
  "length (refreshTokens fullRing) = 5 \<and>
   map token (refreshTokens (addRefreshToken fullRing ''t6'' 604800060 None None 60)) =
     [''t2'', ''t3'', ''t4'', ''t5'', ''t6''] \<and>
   length (refreshTokens (ring_run fullRing
      [AddRefreshToken ''t6'' 604800060 None None 60, RemoveRefreshToken ''t3'',
       AddRefreshToken ''t7'' 604800070 None None 70])) \<le> 5"
proof -
  have l: "length (refreshTokens fullRing) \<le> 5"
    by (simp add: fullRing_def)
  have n: "length (refreshTokens fullRing) = 5"
    by (simp add: fullRing_def)
  have k: "filter (\<lambda>rt. \<not> expiresAt rt \<le> 60) (refreshTokens fullRing) = refreshTokens fullRing"
    by (simp add: fullRing_def session_def)
  from refresh_ring_add_and_bound[OF l, of "''t6''" 604800060 None None 60]
  have a: "refreshTokens (addRefreshToken fullRing ''t6'' 604800060 None None 60) =
          tl (refreshTokens fullRing) @
            [\<lparr>token = ''t6'', expiresAt = 604800060, createdAt = 60, deviceInfo = None,
              ipAddress = None\<rparr>]"
    and b: "\<forall>ops. length (refreshTokens (ring_run fullRing ops)) \<le> 5"
    by (simp_all only: k Let_def n if_True simp_thms)
  have "map token (refreshTokens (addRefreshToken fullRing ''t6'' 604800060 None None 60)) =
     [''t2'', ''t3'', ''t4'', ''t5'', ''t6'']"
    by (simp add: a) (simp add: fullRing_def session_def)
  with b n show ?thesis
    by blast
qed

section \<open>Password change and reset\<close>

lemma changePassword_ok:
  assumes "status (fst (changePassword e d u cur new now)) = 200"
  shows "\<exists>usr i. u = Some usr \<and>
           findOneIdx (\<lambda>c. email c = castEmail (dt_email usr)) (credentials d) = Some i \<and>
           snd (changePassword e d u cur new now) =
             saveCredentials d i
               (removeAllRefreshTokens
                  ((credentials d ! i)\<lparr>password := hashPassword e new,
                     passwordChangedAt := Some now, lastPasswordChange := Some now\<rparr>))"
  using assms
  by (auto simp: changePassword_def Let_def reply_def split: option.splits if_splits)

lemma resetPassword_ok:
  assumes "status (fst (resetPassword e d tok new now)) = 200"
  shows "\<exists>i c2. findOneIdx (resetTokenFilter (hashResetToken e tok) now) (credentials d) = Some i \<and>
           snd (resetPassword e d tok new now) =
             saveCredentials d i (removeAllRefreshTokens c2)"
  using assms
  by (auto simp: resetPassword_def Let_def reply_def split: option.splits if_splits)

text \<open>
  Claim C7. A successful \<open>changePassword\<close> and a successful \<open>resetPassword\<close> each leave
  the refresh-token list of the credential they change empty, whatever it held before.
\<close>

theorem password_change_invalidates_sessions:
  "(status (fst (changePassword e d u cur new now)) = 200 \<longrightarrow>
      (\<exists>usr i. u = Some usr \<and>
         findOneIdx (\<lambda>c. email c = castEmail (dt_email usr)) (credentials d) = Some i \<and>
         refreshTokens (credentials (snd (changePassword e d u cur new now)) ! i) = [])) \<and>
   (status (fst (resetPassword e d tok new now)) = 200 \<longrightarrow>
      (\<exists>i. findOneIdx (resetTokenFilter (hashResetToken e tok) now) (credentials d) = Some i \<and>
         refreshTokens (credentials (snd (resetPassword e d tok new now)) ! i) = []))"
proof (intro conjI impI)
  assume "status (fst (changePassword e d u cur new now)) = 200"
  from changePassword_ok[OF this] obtain usr i where
    u: "u = Some usr"
    and f: "findOneIdx (\<lambda>c. email c = castEmail (dt_email usr)) (credentials d) = Some i"
    and s: "snd (changePassword e d u cur new now) =
             saveCredentials d i
               (removeAllRefreshTokens
                  ((credentials d ! i)\<lparr>password := hashPassword e new,
                     passwordChangedAt := Some now, lastPasswordChange := Some now\<rparr>))"
    by blast
  from f have "i < length (credentials d)"
    using findOneIdx_Some by blast
  then have "refreshTokens (credentials (snd (changePassword e d u cur new now)) ! i) = []"
    by (simp add: s credentials_saveCredentials removeAllRefreshTokens_def)
  with u f show "\<exists>usr i. u = Some usr \<and>
         findOneIdx (\<lambda>c. email c = castEmail (dt_email usr)) (credentials d) = Some i \<and>
         refreshTokens (credentials (snd (changePassword e d u cur new now)) ! i) = []"
    by blast
next
  assume "status (fst (resetPassword e d tok new now)) = 200"
  from resetPassword_ok[OF this] obtain i c2 where
    f: "findOneIdx (resetTokenFilter (hashResetToken e tok) now) (credentials d) = Some i"
    and s: "snd (resetPassword e d tok new now) = saveCredentials d i (removeAllRefreshTokens c2)"
    by blast
  from f have "i < length (credentials d)"
    using findOneIdx_Some by blast
  then have "refreshTokens (credentials (snd (resetPassword e d tok new now)) ! i) = []"
    by (simp add: s credentials_saveCredentials removeAllRefreshTokens_def)
  with f show "\<exists>i. findOneIdx (resetTokenFilter (hashResetToken e tok) now) (credentials d) = Some i \<and>
         refreshTokens (credentials (snd (resetPassword e d tok new now)) ! i) = []"
    by blast
qed

text \<open>Alice is signed in on one device and has a pending reset record. Changing the
  password at time 2000, or resetting it with the raw token, leaves no session.\<close>

theorem password_change_invalidates_sessions_witness:
  "refreshTokens (credentials signedInDb ! 0) \<noteq> [] \<and>
   status (fst (changePassword plainEnv signedInDb
      (Some \<lparr>userId = 7, dt_email = ''a@x.com'', dt_staffId = None, dt_roles = [],
              dt_exp = 900000\<rparr>) ''Secret1!'' ''Newpass1!'' 2000)) = 200 \<and>
   refreshTokens (credentials (snd (changePassword plainEnv signedInDb
      (Some \<lparr>userId = 7, dt_email = ''a@x.com'', dt_staffId = None, dt_roles = [],
              dt_exp = 900000\<rparr>) ''Secret1!'' ''Newpass1!'' 2000)) ! 0) = [] \<and>
   status (fst (resetPassword plainEnv signedInDb ''tokenA'' ''Newpass1!'' 2000)) = 200 \<and>
   refreshTokens
     (credentials (snd (resetPassword plainEnv signedInDb ''tokenA'' ''Newpass1!'' 2000)) ! 0) = []"
proof -
  let ?u = "Some \<lparr>userId = 7, dt_email = ''a@x.com'', dt_staffId = None, dt_roles = [],
                   dt_exp = 900000\<rparr>"
  have v: "fst (validatePasswordStrength ''Newpass1!'')"
    by (simp add: validatePasswordStrength_def isLowerChar_def isUpperChar_def
          isDigitChar_def isSpecialChar_def)
  have n: "refreshTokens (credentials signedInDb ! 0) \<noteq> []"
    by (simp add: signedInDb_def)
  have c: "status (fst (changePassword plainEnv signedInDb ?u ''Secret1!'' ''Newpass1!'' 2000))
             = 200"
    by (simp add: changePassword_def Let_def v cast_lower signedInDb_def alice_def
          comparePassword_def plainEnv_def reply_def)
  have fc: "findOneIdx (\<lambda>c. email c = castEmail ''a@x.com'') (credentials signedInDb) = Some 0"
    by (simp add: cast_lower signedInDb_def alice_def)
  have r: "status (fst (resetPassword plainEnv signedInDb ''tokenA'' ''Newpass1!'' 2000)) = 200"
    by (simp add: resetPassword_def Let_def v signedInDb_def resetTokenFilter_def
          hashResetToken_def plainEnv_def reply_def)
  have fr: "findOneIdx (resetTokenFilter (hashResetToken plainEnv ''tokenA'') 2000)
              (credentials signedInDb) = Some 0"
    by (simp add: signedInDb_def resetTokenFilter_def hashResetToken_def plainEnv_def)
  from password_change_invalidates_sessions
         [of plainEnv signedInDb ?u "''Secret1!''" "''Newpass1!''" 2000 "''tokenA''"]
       c r fc fr
  have "refreshTokens (credentials (snd (changePassword plainEnv signedInDb ?u
           ''Secret1!'' ''Newpass1!'' 2000)) ! 0) = [] \<and>
        refreshTokens (credentials (snd (resetPassword plainEnv signedInDb ''tokenA''
           ''Newpass1!'' 2000)) ! 0) = []"
    by auto
  with n c r show ?thesis
    by blast
qed

section \<open>Logout\<close>

lemma removeRefreshToken_twice:
  "removeRefreshToken (removeRefreshToken c tok) tok = removeRefreshToken c tok"
  by (simp add: removeRefreshToken_def)

lemma removeRefreshToken_absent:
  "\<not> list_ex (\<lambda>rt. token rt = tok) (refreshTokens c) \<Longrightarrow> removeRefreshToken c tok = c"
proof -
  assume "\<not> list_ex (\<lambda>rt. token rt = tok) (refreshTokens c)"
  then have "filter (\<lambda>rt. token rt \<noteq> tok) (refreshTokens c) = refreshTokens c"
    by (simp add: list_ex_iff filter_id_conv)
  then show ?thesis
    by (simp add: removeRefreshToken_def)
qed

lemma email_removeRefreshToken: "email (removeRefreshToken c tok) = email c"
  by (simp add: removeRefreshToken_def)

lemma saveCredentials_same:
  "i < length (credentials d) \<Longrightarrow> saveCredentials d i (credentials d ! i) = d"
  by (simp add: saveCredentials_def)

lemma saveCredentials_twice:
  "saveCredentials (saveCredentials d i c) i c' = saveCredentials d i c'"
  by (simp add: saveCredentials_def)

lemma findOneIdx_email_saved:
  assumes "i < length (credentials d)" and "email c = email (credentials d ! i)"
  shows "findOneIdx (\<lambda>c. email c = em) (credentials (saveCredentials d i c)) =
         findOneIdx (\<lambda>c. email c = em) (credentials d)"
proof (rule findOneIdx_map_cong)
  show "map (\<lambda>c. email c = em) (credentials (saveCredentials d i c)) =
        map (\<lambda>c. email c = em) (credentials d)"
    using assms by (simp add: credentials_saveCredentials map_update list_update_same_conv)
qed

lemma logout_reply:
  "tok \<noteq> [] \<Longrightarrow> fst (logout e d (Some tok) now) = reply 200 True ''Logout successful''"
  by (simp add: logout_def split: option.splits sum.splits)

lemma logout_state:
  "tok \<noteq> [] \<Longrightarrow>
     snd (logout e d (Some tok) now) =
       (case verifyRefreshToken e tok now of
          Inl msg \<Rightarrow> d
        | Inr decoded \<Rightarrow>
            (case findOneIdx (\<lambda>c. email c = castEmail (dt_email decoded)) (credentials d) of
               None \<Rightarrow> d
             | Some i \<Rightarrow> saveCredentials d i (removeRefreshToken (credentials d ! i) tok)))"
  by (simp add: logout_def split: option.splits sum.splits)

lemma verifyRefreshToken_later:
  assumes "now \<le> now'" and "verifyRefreshToken e tok now' = Inr dec"
  shows "verifyRefreshToken e tok now = Inr dec"
  using assms by (auto simp: verifyRefreshToken_def split: option.splits if_splits)

lemma logout_absent:
  assumes "tok \<noteq> []"
    and "list_all (\<lambda>c. \<not> list_ex (\<lambda>rt. token rt = tok) (refreshTokens c)) (credentials d)"
  shows "snd (logout e d (Some tok) now) = d"
proof -
  have "saveCredentials d i (removeRefreshToken (credentials d ! i) tok) = d"
    if "findOneIdx P (credentials d) = Some i" for P i
  proof -
    from that have i: "i < length (credentials d)"
      using findOneIdx_Some by blast
    with assms(2) have "\<not> list_ex (\<lambda>rt. token rt = tok) (refreshTokens (credentials d ! i))"
      by (simp add: list_all_length)
    then show ?thesis
      using i by (simp add: removeRefreshToken_absent saveCredentials_same)
  qed
  then show ?thesis
    by (simp add: logout_state[OF assms(1)] split: sum.splits option.splits)
qed

lemma logout_twice:
  assumes "tok \<noteq> []" and "now \<le> now'"
  shows "snd (logout e (snd (logout e d (Some tok) now)) (Some tok) now') =
         snd (logout e d (Some tok) now)"
proof (cases "verifyRefreshToken e tok now'")
  case (Inl msg)
  then show ?thesis
    by (simp add: logout_state[OF assms(1), of e _ now'])
next
  case (Inr dec)
  then have first: "verifyRefreshToken e tok now = Inr dec"
    using assms(2) verifyRefreshToken_later by blast
  show ?thesis
  proof (cases "findOneIdx (\<lambda>c. email c = castEmail (dt_email dec)) (credentials d)")
    case None
    then show ?thesis
      by (simp add: logout_state[OF assms(1)] Inr first)
  next
    case (Some i)
    then have i: "i < length (credentials d)"
      using findOneIdx_Some by blast
    let ?d1 = "saveCredentials d i (removeRefreshToken (credentials d ! i) tok)"
    have d1: "snd (logout e d (Some tok) now) = ?d1"
      by (simp add: logout_state[OF assms(1)] first Some)
    have f1: "findOneIdx (\<lambda>c. email c = castEmail (dt_email dec)) (credentials ?d1) = Some i"
      using i Some by (simp add: findOneIdx_email_saved email_removeRefreshToken)
    have c1: "credentials ?d1 ! i = removeRefreshToken (credentials d ! i) tok"
      using i by (simp add: credentials_saveCredentials)
    have "snd (logout e ?d1 (Some tok) now') = ?d1"
      by (simp add: logout_state[OF assms(1)] Inr f1 c1 removeRefreshToken_twice
            saveCredentials_twice)
    then show ?thesis
      by (simp add: d1)
  qed
qed

text \<open>
  Claim C9, as the code has it. A logout request whose refresh token is missing or the
  empty string is answered 400 "Refresh token is required" and changes nothing. A
  request that carries a non-empty refresh token is always answered 200 "Logout
  successful", whether the token verifies or not and whether a credential stores it or
  not. When no credential stores the token the state is left as it was. A second
  logout with the same token, served no earlier than the first, is answered 200 again
  and leaves the state as the first call left it.
\<close>

theorem logout_succeeds_and_is_idempotent:
  "logout e d None now = (reply 400 False ''Refresh token is required'', d) \<and>
   logout e d (Some []) now = (reply 400 False ''Refresh token is required'', d) \<and>
   (tok \<noteq> [] \<longrightarrow>
      fst (logout e d (Some tok) now) = reply 200 True ''Logout successful'' \<and>
      (list_all (\<lambda>c. \<not> list_ex (\<lambda>rt. token rt = tok) (refreshTokens c)) (credentials d)
         \<longrightarrow> snd (logout e d (Some tok) now) = d) \<and>
      (now \<le> now' \<longrightarrow>
         logout e (snd (logout e d (Some tok) now)) (Some tok) now' =
           (reply 200 True ''Logout successful'', snd (logout e d (Some tok) now))))"
proof (intro conjI impI)
  show "logout e d None now = (reply 400 False ''Refresh token is required'', d)"
    by (simp add: logout_def)
  show "logout e d (Some []) now = (reply 400 False ''Refresh token is required'', d)"
    by (simp add: logout_def)
next
  assume t: "tok \<noteq> []"
  show "fst (logout e d (Some tok) now) = reply 200 True ''Logout successful''"
    using t by (rule logout_reply)
  show "snd (logout e d (Some tok) now) = d"
    if "list_all (\<lambda>c. \<not> list_ex (\<lambda>rt. token rt = tok) (refreshTokens c)) (credentials d)"
    using t that by (rule logout_absent)
  show "logout e (snd (logout e d (Some tok) now)) (Some tok) now' =
          (reply 200 True ''Logout successful'', snd (logout e d (Some tok) now))"
    if "now \<le> now'"
    using logout_reply[OF t, of e "snd (logout e d (Some tok) now)" now']
      logout_twice[OF t that, of e d]
    by (simp add: prod_eq_iff)
qed

text \<open>Alice signs out at time 2000 and again at time 3000: the first call removes her
  session, the second is answered 200 and changes nothing. A request without a token
  is answered 400.\<close>

theorem logout_succeeds_and_is_idempotent_witness:
  "refreshTokens (credentials signedInDb ! 0) \<noteq> [] \<and>
   status (fst (logout plainEnv signedInDb (Some ''refresh:a@x.com'') 2000)) = 200 \<and>
   refreshTokens
     (credentials (snd (logout plainEnv signedInDb (Some ''refresh:a@x.com'') 2000)) ! 0) = [] \<and>
   logout plainEnv (snd (logout plainEnv signedInDb (Some ''refresh:a@x.com'') 2000))
     (Some ''refresh:a@x.com'') 3000 =
     (reply 200 True ''Logout successful'',
      snd (logout plainEnv signedInDb (Some ''refresh:a@x.com'') 2000)) \<and>
   logout plainEnv signedInDb None 2000 =
     (reply 400 False ''Refresh token is required'', signedInDb)"
proof -
  have t: "''refresh:a@x.com'' \<noteq> []"
    by simp
  have n: "refreshTokens (credentials signedInDb ! 0) \<noteq> []"
    by (simp add: signedInDb_def)
  have s: "refreshTokens
     (credentials (snd (logout plainEnv signedInDb (Some ''refresh:a@x.com'') 2000)) ! 0) = []"
    by (simp add: logout_def verifyRefreshToken_def plainEnv_def cast_lower signedInDb_def
          alice_def saveCredentials_def removeRefreshToken_def session_def)
  from logout_succeeds_and_is_idempotent
         [of plainEnv signedInDb 2000 "''refresh:a@x.com''" 3000] t n s
  show ?thesis
    by (simp add: reply_def)
qed

text \<open>The claim as it is written covers every request. A request whose refresh token
  is the empty string is answered 400.\<close>

theorem logout_refuses_empty_token:
  "fst (logout plainEnv signedInDb (Some []) 2000) =
     reply 400 False ''Refresh token is required'' \<and>
   status (fst (logout plainEnv signedInDb (Some []) 2000)) \<noteq> 200"
  by (simp add: logout_def reply_def)

section \<open>The failure counter under every request\<close>

lemma map_failedLoginAttempts_update:
  "i < length xs \<Longrightarrow> failedLoginAttempts c = failedLoginAttempts (xs ! i) \<Longrightarrow>
     map failedLoginAttempts (xs[i := c]) = map failedLoginAttempts xs"
  by (simp add: map_update list_update_same_conv)

lemma counter_refreshToken:
  "map failedLoginAttempts (credentials (snd (refreshToken e d t now))) =
     map failedLoginAttempts (credentials d)"
  by (simp add: refreshToken_def Let_def split: option.splits sum.splits)

lemma counter_logout:
  "map failedLoginAttempts (credentials (snd (logout e d t now))) =
     map failedLoginAttempts (credentials d)"
  by (auto simp: logout_def credentials_saveCredentials removeRefreshToken_def
        map_failedLoginAttempts_update dest: findOneIdx_Some split: option.splits sum.splits)

lemma counter_logoutAll:
  "map failedLoginAttempts (credentials (snd (logoutAll d u))) =
     map failedLoginAttempts (credentials d)"
  by (auto simp: logoutAll_def credentials_saveCredentials removeAllRefreshTokens_def
        map_failedLoginAttempts_update dest: findOneIdx_Some split: option.splits)

lemma counter_changePassword:
  "map failedLoginAttempts (credentials (snd (changePassword e d u cur new now))) =
     map failedLoginAttempts (credentials d)"
  by (auto simp: changePassword_def Let_def credentials_saveCredentials
        removeAllRefreshTokens_def map_failedLoginAttempts_update
        dest: findOneIdx_Some split: option.splits)

lemma counter_forgotPassword:
  "map failedLoginAttempts (credentials (snd (forgotPassword e d em rnd now))) =
     map failedLoginAttempts (credentials d)"
  by (auto simp: forgotPassword_def Let_def credentials_saveCredentials
        map_failedLoginAttempts_update dest: findOneIdx_Some split: option.splits)

lemma counter_resetPassword:
  "map failedLoginAttempts (credentials (snd (resetPassword e d t new now))) =
     map failedLoginAttempts (credentials d)"
  by (auto simp: resetPassword_def Let_def credentials_saveCredentials
        removeAllRefreshTokens_def map_failedLoginAttempts_update
        dest: findOneIdx_Some split: option.splits)

lemma counter_verifyEmail:
  "map failedLoginAttempts (credentials (snd (verifyEmail d t now))) =
     map failedLoginAttempts (credentials d)"
  by (auto simp: verifyEmail_def credentials_saveCredentials
        map_failedLoginAttempts_update dest: findOneIdx_Some split: option.splits)

lemma counter_kept:
  assumes "map failedLoginAttempts xs' = map failedLoginAttempts xs"
    and "k < length xs"
  shows "failedLoginAttempts (xs' ! k) = failedLoginAttempts (xs ! k)"
proof -
  from assms(1) have "length xs' = length xs"
    by (rule map_eq_imp_length_eq)
  with assms have "map failedLoginAttempts xs' ! k = map failedLoginAttempts xs ! k"
    by simp
  with assms(2) \<open>length xs' = length xs\<close> show ?thesis
    by simp
qed

lemma counter_login_reset:
  assumes "k < length (credentials d)"
    and "failedLoginAttempts (credentials d ! k) \<noteq> 0"
    and "failedLoginAttempts (credentials (snd (login e d em pw dev ip now)) ! k) = 0"
  shows "findOneIdx (\<lambda>c. email c = castEmail em) (credentials d) = Some k \<and>
         \<not> isAccountLocked (credentials d ! k) now \<and>
         comparePassword e pw (password (credentials d ! k))"
proof (cases "findOneIdx (\<lambda>c. email c = castEmail em) (credentials d)")
  case None
  with assms show ?thesis by (simp add: login_def)
next
  case (Some i)
  then have i: "i < length (credentials d)"
    using findOneIdx_Some by blast
  show ?thesis
  proof (cases "isAccountLocked (credentials d ! i) now")
    case True
    with Some assms show ?thesis by (simp add: login_def)
  next
    case unlocked: False
    show ?thesis
    proof (cases "comparePassword e pw (password (credentials d ! i))")
      case False
      with Some unlocked assms i show ?thesis
        by (cases "k = i")
           (simp_all add: login_def credentials_saveCredentials
              failedLoginAttempts_increment)
    next
      case True
      have "k = i"
      proof (rule ccontr)
        assume "k \<noteq> i"
        with Some unlocked True assms i show False
          by (auto simp: login_def Let_def credentials_saveCredentials
                credentials_saveProfile split: option.splits if_splits)
      qed
      with Some unlocked True show ?thesis by simp
    qed
  qed
qed

text \<open>
  Claim C10. The expiry of a lock does not reset the failure counter. For a credential
  whose \<open>accountLockedUntil\<close> has elapsed while \<open>failedLoginAttempts\<close> is still at least
  5, one further login attempt with a wrong password sets \<open>accountLockedUntil\<close> to the
  time of the attempt plus 30 minutes, so the credential is locked again. And whatever
  request the controller serves, a credential's counter goes from a non-zero value to 0
  only when the request is a login whose trimmed, lower-cased address finds that
  credential, accepted past the lock test, whose password matches.
\<close>

theorem relock_after_expiry_and_reset_only_on_match:
  "(\<forall>i t. findOneIdx (\<lambda>c. email c = castEmail em) (credentials d) = Some i \<and>
          accountLockedUntil (credentials d ! i) = Some t \<and> t \<le> now \<and>
          5 \<le> failedLoginAttempts (credentials d ! i) \<and>
          \<not> comparePassword e pw (password (credentials d ! i))
      \<longrightarrow> accountLockedUntil (credentials (snd (login e d em pw dev ip now)) ! i) =
            Some (now + 30 * 60 * 1000) \<and>
          isAccountLocked (credentials (snd (login e d em pw dev ip now)) ! i) now \<and>
          failedLoginAttempts (credentials (snd (login e d em pw dev ip now)) ! i) =
            failedLoginAttempts (credentials d ! i) + 1) \<and>
   (\<forall>rq k. k < length (credentials d) \<and>
          failedLoginAttempts (credentials d ! k) \<noteq> 0 \<and>
          failedLoginAttempts (credentials (snd (handle e d rq now)) ! k) = 0
      \<longrightarrow> (\<exists>em' pw' dev' ip'. rq = Login em' pw' dev' ip' \<and>
             findOneIdx (\<lambda>c. email c = castEmail em') (credentials d) = Some k \<and>
             \<not> isAccountLocked (credentials d ! k) now \<and>
             comparePassword e pw' (password (credentials d ! k))))"
proof (intro conjI allI impI)
  fix i t
  assume h: "findOneIdx (\<lambda>c. email c = castEmail em) (credentials d) = Some i \<and>
          accountLockedUntil (credentials d ! i) = Some t \<and> t \<le> now \<and>
          5 \<le> failedLoginAttempts (credentials d ! i) \<and>
          \<not> comparePassword e pw (password (credentials d ! i))"
  then have u: "\<not> isAccountLocked (credentials d ! i) now"
    by (simp add: isAccountLocked_def)
  from h have i: "i < length (credentials d)"
    using findOneIdx_Some by blast
  have c': "credentials (snd (login e d em pw dev ip now)) ! i =
            incrementFailedAttempts (credentials d ! i) now"
    using h u i by (simp add: login_wrong_password credentials_saveCredentials)
  from h show "accountLockedUntil (credentials (snd (login e d em pw dev ip now)) ! i) =
      Some (now + 30 * 60 * 1000)"
    and "isAccountLocked (credentials (snd (login e d em pw dev ip now)) ! i) now"
    and "failedLoginAttempts (credentials (snd (login e d em pw dev ip now)) ! i) =
      failedLoginAttempts (credentials d ! i) + 1"
    by (simp_all add: c' incrementFailedAttempts_def isAccountLocked_def Let_def)
next
  fix rq k
  assume h: "k < length (credentials d) \<and>
          failedLoginAttempts (credentials d ! k) \<noteq> 0 \<and>
          failedLoginAttempts (credentials (snd (handle e d rq now)) ! k) = 0"
  have other: False
    if "map failedLoginAttempts (credentials (snd (handle e d rq now))) =
        map failedLoginAttempts (credentials d)"
    using counter_kept[OF that, of k] h by simp
  show "\<exists>em' pw' dev' ip'. rq = Login em' pw' dev' ip' \<and>
             findOneIdx (\<lambda>c. email c = castEmail em') (credentials d) = Some k \<and>
             \<not> isAccountLocked (credentials d ! k) now \<and>
             comparePassword e pw' (password (credentials d ! k))"
  proof (cases rq)
    case (Login em' pw' dev' ip')
    with h counter_login_reset[of k d e em' pw' dev' ip' now] show ?thesis
      by simp
  next
    case (RefreshTokenReq x)
    with other show ?thesis by (simp add: counter_refreshToken)
  next
    case (Logout x)
    with other show ?thesis by (simp add: counter_logout)
  next
    case (LogoutAll x)
    with other show ?thesis by (simp add: counter_logoutAll)
  next
    case (ChangePassword x y z)
    with other show ?thesis by (simp add: counter_changePassword)
  next
    case (ForgotPassword x y)
    with other show ?thesis by (simp add: counter_forgotPassword)
  next
    case (ResetPassword x y)
    with other show ?thesis by (simp add: counter_resetPassword)
  next
    case (VerifyEmail x)
    with other show ?thesis by (simp add: counter_verifyEmail)
  qed
qed

text \<open>Alice's lock has elapsed at time 1801000 and her counter is still 5. A wrong
  password then locks her until 3601000 and counts 6; the correct password, with the
  address typed in capitals, takes the counter to 0.\<close>

theorem relock_after_expiry_and_reset_only_on_match_witness:
  "accountLockedUntil (credentials lockedDb ! 0) = Some 1801000 \<and>
   failedLoginAttempts (credentials lockedDb ! 0) = 5 \<and>
   accountLockedUntil
     (credentials (snd (login plainEnv lockedDb ''a@x.com'' ''wrong'' None None 1801000)) ! 0) =
     Some 3601000 \<and>
   failedLoginAttempts
     (credentials (snd (login plainEnv lockedDb ''a@x.com'' ''wrong'' None None 1801000)) ! 0) =
     6 \<and>
   failedLoginAttempts
     (credentials (snd (handle plainEnv lockedDb (Login ''A@X.COM'' ''Secret1!'' None None)
        1801000)) ! 0) = 0 \<and>
   comparePassword plainEnv ''Secret1!'' (password (credentials lockedDb ! 0))"
proof -
  have f: "findOneIdx (\<lambda>c. email c = castEmail ''a@x.com'') (credentials lockedDb) = Some 0"
    by (simp add: cast_lower lockedDb_def alice_def)
  have s: "accountLockedUntil (credentials lockedDb ! 0) = Some 1801000 \<and>
           failedLoginAttempts (credentials lockedDb ! 0) = 5 \<and>
           0 < length (credentials lockedDb)"
    by (simp add: lockedDb_def)
  have w: "\<not> comparePassword plainEnv ''wrong'' (password (credentials lockedDb ! 0))"
    by (simp add: lockedDb_def alice_def comparePassword_def plainEnv_def)
  have z: "failedLoginAttempts
     (credentials (snd (handle plainEnv lockedDb (Login ''A@X.COM'' ''Secret1!'' None None)
        1801000)) ! 0) = 0"
    by (simp add: login_def cast_upper lockedDb_def alice_def aliceProfile_def aliceStaff_def
          comparePassword_def plainEnv_def isAccountLocked_def resetFailedAttempts_def
          saveCredentials_def saveProfile_def generateTokens_def generateRefreshToken_def
          addRefreshToken_def populateStaffForLogin_def staffToJSON_def addressSummary_def
          Let_def)
  note t = relock_after_expiry_and_reset_only_on_match
             [of "''a@x.com''" lockedDb 1801000 plainEnv "''wrong''" None None]
  from t f s w have 1: "accountLockedUntil
     (credentials (snd (login plainEnv lockedDb ''a@x.com'' ''wrong'' None None 1801000)) ! 0) =
     Some (1801000 + 30 * 60 * 1000) \<and>
   failedLoginAttempts
     (credentials (snd (login plainEnv lockedDb ''a@x.com'' ''wrong'' None None 1801000)) ! 0) =
     failedLoginAttempts (credentials lockedDb ! 0) + 1"
    by auto
  have nz: "0 < length (credentials lockedDb) \<and>
            failedLoginAttempts (credentials lockedDb ! 0) \<noteq> 0"
    by (simp add: lockedDb_def)
  from t nz z have "\<exists>em' pw' dev' ip'.
      Login ''A@X.COM'' ''Secret1!'' None None = Login em' pw' dev' ip' \<and>
      findOneIdx (\<lambda>c. email c = castEmail em') (credentials lockedDb) = Some 0 \<and>
      \<not> isAccountLocked (credentials lockedDb ! 0) 1801000 \<and>
      comparePassword plainEnv pw' (password (credentials lockedDb ! 0))"
    by blast
  then have 2: "comparePassword plainEnv ''Secret1!'' (password (credentials lockedDb ! 0))"
    by auto
  from s 1 z 2 show ?thesis
    by simp
qed

section \<open>Password-reset tokens and the forgot-password response\<close>

lemma strong_Newpass: "fst (validatePasswordStrength ''Newpass1!'')"
  by (simp add: validatePasswordStrength_def isLowerChar_def isUpperChar_def
        isDigitChar_def isSpecialChar_def)

lemma strong_Another: "fst (validatePasswordStrength ''Another2?'')"
  by (simp add: validatePasswordStrength_def isLowerChar_def isUpperChar_def
        isDigitChar_def isSpecialChar_def)

text \<open>
  Claim C6. A raw reset token succeeds at most once: after a successful
  \<open>resetPassword\<close>, a later call with the same raw token fails. In the code the three
  conditions of the lookup are met by different records: once a second reset has been
  requested, its unused and unexpired record satisfies the last two conditions while
  the used record still carries the digest. Whatever the hash functions are, the four
  requests of \<open>reuseScenario\<close> are all answered 200, and the last one, a second reset
  with the raw token \<open>tokenA\<close>, sets the password again.
\<close>

theorem reset_token_accepted_twice:
  "map status (fst (serve e aliceDb reuseScenario)) = [200, 200, 200, 200] \<and>
   fst (serve e aliceDb reuseScenario) ! 3 =
     reply 200 True ''Password reset successful. Please login with your new password.'' \<and>
   password (credentials (snd (serve e aliceDb reuseScenario)) ! 0) =
     hashPassword e ''Another2?''"
  by (simp add: reuseScenario_def cast_lower aliceDb_def alice_def forgotPassword_def
        resetPassword_def
        generateResetToken_def hashResetToken_def resetTokenFilter_def
        strong_Newpass strong_Another saveCredentials_def removeAllRefreshTokens_def
        reply_def Let_def)

text \<open>
  Claim C8. The responses of \<open>forgotPassword\<close> for an email with a credential and for
  an email without one are identical. In the code they differ in the message, and the
  response for an existing credential carries the raw reset token, although the source
  comments its first branch with "Don't reveal if email exists".
\<close>

theorem forgot_password_reveals_account:
  "fst (forgotPassword e aliceDb ''a@x.com'' rnd now) =
     (reply 200 True ''Password reset link has been sent to your email'')
       \<lparr>resetToken := Some rnd\<rparr> \<and>
   fst (forgotPassword e aliceDb ''nobody@x.com'' rnd now) =
     reply 200 True ''If the email exists, a reset link has been sent'' \<and>
   fst (forgotPassword e aliceDb ''a@x.com'' rnd now) \<noteq>
     fst (forgotPassword e aliceDb ''nobody@x.com'' rnd now)"
  by (simp add: forgotPassword_def cast_lower cast_nobody aliceDb_def alice_def Let_def
        generateResetToken_def reply_def)

end
